theory Spec2Isabelle
  imports Complex_Main "HOL-Library.Code_Target_Nat"
begin

section \<open>JavaScript strings\<close>

text \<open>
  The converter is a browser class, \<open>MediaConverter\<close>. Its strings are modelled as
  \<^typ>\<open>string\<close>; the case conversions below act on the ASCII letters.
\<close>

definition toLowerCase_char :: "char \<Rightarrow> char" where
  "toLowerCase_char c =
     (let n = (of_char c :: nat) in if 65 \<le> n \<and> n \<le> 90 then char_of (n + 32) else c)"

definition toUpperCase_char :: "char \<Rightarrow> char" where
  "toUpperCase_char c =
     (let n = (of_char c :: nat) in if 97 \<le> n \<and> n \<le> 122 then char_of (n - 32) else c)"

definition toLowerCase :: "string \<Rightarrow> string" where
  "toLowerCase s = map toLowerCase_char s"

definition toUpperCase :: "string \<Rightarrow> string" where
  "toUpperCase s = map toUpperCase_char s"

definition startsWith :: "string \<Rightarrow> string \<Rightarrow> bool" where
  "startsWith s p = (take (length p) s = p)"

text \<open>\<open>s.split(c)\<close> for a one-character separator: never empty, \<open>''''\<close> gives \<open>['''']\<close>.\<close>

fun split_on :: "char \<Rightarrow> string \<Rightarrow> string list" where
  "split_on c [] = [[]]"
| "split_on c (x # xs) =
     (let r = split_on c xs in if x = c then [] # r else (x # hd r) # tl r)"

text \<open>\<open>s.split(c).pop()\<close>: the last segment.\<close>

definition split_pop :: "char \<Rightarrow> string \<Rightarrow> string" where
  "split_pop c s = last (split_on c s)"

text \<open>\<open>s.split(c)[1]\<close>: the second segment, \<open>undefined\<close> (\<open>None\<close>) when there is none.\<close>

definition split_second :: "char \<Rightarrow> string \<Rightarrow> string option" where
  "split_second c s =
     (case split_on c s of a # b # r \<Rightarrow> Some b | _ \<Rightarrow> None)"

text \<open>\<open>s.lastIndexOf(c)\<close>: the last position of \<open>c\<close>, or \<open>-1\<close>.\<close>

definition lastIndexOf :: "char \<Rightarrow> string \<Rightarrow> int" where
  "lastIndexOf c s =
     (case filter (\<lambda>i. s ! i = c) (rev [0..<length s]) of
        [] \<Rightarrow> - 1
      | i # r \<Rightarrow> int i)"

text \<open>\<open>s.substring(0, k)\<close>: a negative end counts as 0, one past the end as the length.\<close>

definition substring0 :: "string \<Rightarrow> int \<Rightarrow> string" where
  "substring0 s k = take (nat k) s"

text \<open>The position of the first occurrence of a pattern.\<close>

fun indexOf :: "string \<Rightarrow> string \<Rightarrow> nat option" where
  "indexOf pat [] = (if pat = [] then Some 0 else None)"
| "indexOf pat (x # xs) =
     (if take (length pat) (x # xs) = pat then Some 0
      else map_option Suc (indexOf pat xs))"

text \<open>
  The replacement text of \<open>String.prototype.replace\<close> is a template: \<open>$$\<close> is a
  dollar, \<open>$&\<close> the matched text, \<open>$`\<close> the text before the match and \<open>$'\<close> the
  text after it. With a string pattern there are no capture groups, so every other
  \<open>$\<close> stands for itself.
\<close>

fun getSubstitution :: "string \<Rightarrow> string \<Rightarrow> string \<Rightarrow> string \<Rightarrow> string" where
  "getSubstitution m b a (c # d # r) =
     (if c = CHR ''$'' \<and> d = CHR ''$'' then CHR ''$'' # getSubstitution m b a r
      else if c = CHR ''$'' \<and> d = CHR ''&'' then m @ getSubstitution m b a r
      else if c = CHR ''$'' \<and> d = CHR 0x60 then b @ getSubstitution m b a r
      else if c = CHR ''$'' \<and> d = CHR 0x27 then a @ getSubstitution m b a r
      else c # getSubstitution m b a (d # r))"
| "getSubstitution m b a r = r"

text \<open>\<open>s.replace(pat, rep)\<close> with a string pattern: the first occurrence only.\<close>

definition replace :: "string \<Rightarrow> string \<Rightarrow> string \<Rightarrow> string" where
  "replace s pat rep =
     (case indexOf pat s of
        None \<Rightarrow> s
      | Some i \<Rightarrow>
          take i s
          @ getSubstitution pat (take i s) (drop (i + length pat) s) rep
          @ drop (i + length pat) s)"

text \<open>\<open>s.replace(/c/g, d)\<close> for single characters.\<close>

definition replace_all_char :: "char \<Rightarrow> char \<Rightarrow> string \<Rightarrow> string" where
  "replace_all_char c d s = map (\<lambda>x. if x = c then d else x) s"

text \<open>\<open>String(n)\<close> for a non-negative integer.\<close>

fun digits :: "nat \<Rightarrow> string" where
  "digits n =
     (if n < 10 then [char_of (48 + n)]
      else digits (n div 10) @ [char_of (48 + n mod 10)])"

definition padStart :: "string \<Rightarrow> nat \<Rightarrow> char \<Rightarrow> string" where
  "padStart s n c = replicate (n - length s) c @ s"

section \<open>Numbers\<close>

text \<open>
  A JavaScript number is an IEEE 754 double: a finite value, an infinity or \<open>NaN\<close>.
  A finite double is held as the rational it denotes. Zero carries no sign: every zero
  divided by below comes from a non-negative integer, and \<open>-0\<close> is not told from \<open>0\<close>
  in a result.
\<close>

datatype jsnum = Num rat | PosInf | NegInf | NaN

definition pow2 :: "int \<Rightarrow> rat" where
  "pow2 k = (if 0 \<le> k then 2 ^ nat k else 1 / 2 ^ nat (- k))"

text \<open>
  The binary exponent of a positive rational, the \<open>e\<close> with \<open>2^e \<le> x < 2^(e+1)\<close>: by
  halving from \<open>1\<close> upwards, by doubling below \<open>1\<close>.
\<close>

function exponent_up :: "rat \<Rightarrow> int" where
  "exponent_up x = (if x < 2 then 0 else 1 + exponent_up (x / 2))"
  by pat_completeness auto
termination
proof (relation "measure (\<lambda>x. nat \<lfloor>x\<rfloor>)")
  show "wf (measure (\<lambda>x :: rat. nat \<lfloor>x\<rfloor>))" by simp
next
  fix x :: rat
  assume "\<not> x < 2"
  then have a: "2 \<le> x" by simp
  have "\<lfloor>x / 2\<rfloor> < \<lfloor>x\<rfloor>"
  proof -
    have "x / 2 < of_int \<lfloor>x\<rfloor>"
    proof -
      have "x - 1 < of_int \<lfloor>x\<rfloor>" by linarith
      moreover have "x / 2 \<le> x - 1" using a by simp
      ultimately show ?thesis by linarith
    qed
    then show ?thesis by (simp add: floor_less_iff)
  qed
  moreover have "0 < \<lfloor>x\<rfloor>" using a by linarith
  ultimately show "(x / 2, x) \<in> measure (\<lambda>x. nat \<lfloor>x\<rfloor>)" by simp
qed

function exponent_down :: "rat \<Rightarrow> int" where
  "exponent_down x = (if x \<le> 0 \<or> 1 \<le> x then 0 else exponent_down (2 * x) - 1)"
  by pat_completeness auto
termination
proof (relation "measure (\<lambda>x. nat \<lceil>1 / x\<rceil>)")
  show "wf (measure (\<lambda>x :: rat. nat \<lceil>1 / x\<rceil>))" by simp
next
  fix x :: rat
  assume "\<not> (x \<le> 0 \<or> 1 \<le> x)"
  then have a: "0 < x" "x < 1" by simp_all
  define y where "y = 1 / x"
  have y: "1 < y" using a by (simp add: y_def)
  have "\<lceil>y / 2\<rceil> < \<lceil>y\<rceil>"
  proof -
    have "2 \<le> \<lceil>y\<rceil>" using y by linarith
    have "y / 2 \<le> of_int (\<lceil>y\<rceil> - 1)"
    proof -
      have "y \<le> of_int \<lceil>y\<rceil>" by linarith
      then have "y / 2 \<le> of_int \<lceil>y\<rceil> / 2" by simp
      also have "\<dots> \<le> of_int \<lceil>y\<rceil> - 1"
        using \<open>2 \<le> \<lceil>y\<rceil>\<close> by simp
      finally show ?thesis by simp
    qed
    then have "\<lceil>y / 2\<rceil> \<le> \<lceil>y\<rceil> - 1" by (simp only: ceiling_le_iff)
    then show ?thesis by simp
  qed
  moreover have "0 < \<lceil>y\<rceil>" using y by linarith
  moreover have "1 / (2 * x) = y / 2" by (simp add: y_def)
  ultimately have "nat \<lceil>1 / (2 * x)\<rceil> < nat \<lceil>y\<rceil>"
    by (simp only: zless_nat_conj)
  then have "nat \<lceil>1 / (2 * x)\<rceil> < nat \<lceil>1 / x\<rceil>"
    by (simp only: y_def)
  then show "(2 * x, x) \<in> measure (\<lambda>x. nat \<lceil>1 / x\<rceil>)"
    by (simp only: in_measure)
qed

definition exponent :: "rat \<Rightarrow> int" where
  "exponent x = (if 1 \<le> x then exponent_up x else exponent_down x)"

text \<open>The nearest integer, a half goes to the even neighbour.\<close>

definition roundHalfEven :: "rat \<Rightarrow> int" where
  "roundHalfEven z =
     (let f = \<lfloor>z\<rfloor>; d = z - of_int f
      in if d < 1 / 2 then f else if 1 / 2 < d then f + 1 else if even f then f else f + 1)"

text \<open>
  The double nearest to a positive rational (round to nearest, ties to even). With
  exponent \<open>e\<close> the doubles around \<open>x\<close> are the multiples of \<open>2^(e-52)\<close>; below
  \<open>2^(-1022)\<close> (the subnormal range) they are the multiples of \<open>2^(-1074)\<close>. A value that
  rounds to \<open>2^1024\<close> or more is \<open>Infinity\<close>.
\<close>

definition roundPositive :: "rat \<Rightarrow> jsnum" where
  "roundPositive x =
     (let e = exponent x
      in if 1024 \<le> e then PosInf
         else (let q = max e (- 1022) - 52;
                   m = roundHalfEven (x / pow2 q)
               in if q = 971 \<and> 2 ^ 53 \<le> m then PosInf else Num (of_int m * pow2 q)))"

text \<open>The double that the exact result of an operation is rounded to.\<close>

definition toDouble :: "rat \<Rightarrow> jsnum" where
  "toDouble x =
     (if x = 0 then Num 0
      else if 0 < x then roundPositive x
      else (case roundPositive (- x) of Num y \<Rightarrow> Num (- y) | _ \<Rightarrow> NegInf))"

text \<open>\<open>a / b\<close> and \<open>a * b\<close>: the exact result, rounded.\<close>

fun js_div :: "jsnum \<Rightarrow> jsnum \<Rightarrow> jsnum" where
  "js_div (Num a) (Num b) =
     (if b \<noteq> 0 then toDouble (a / b)
      else if a > 0 then PosInf else if a < 0 then NegInf else NaN)"
| "js_div (Num a) PosInf = Num 0"
| "js_div (Num a) NegInf = Num 0"
| "js_div PosInf (Num b) = (if b < 0 then NegInf else PosInf)"
| "js_div NegInf (Num b) = (if b < 0 then PosInf else NegInf)"
| "js_div x y = NaN"

fun js_mul :: "jsnum \<Rightarrow> jsnum \<Rightarrow> jsnum" where
  "js_mul (Num a) (Num b) = toDouble (a * b)"
| "js_mul (Num a) PosInf = (if a > 0 then PosInf else if a < 0 then NegInf else NaN)"
| "js_mul (Num a) NegInf = (if a > 0 then NegInf else if a < 0 then PosInf else NaN)"
| "js_mul PosInf (Num b) = (if b > 0 then PosInf else if b < 0 then NegInf else NaN)"
| "js_mul NegInf (Num b) = (if b > 0 then NegInf else if b < 0 then PosInf else NaN)"
| "js_mul PosInf PosInf = PosInf"
| "js_mul NegInf NegInf = PosInf"
| "js_mul PosInf NegInf = NegInf"
| "js_mul NegInf PosInf = NegInf"
| "js_mul x y = NaN"

text \<open>
  \<open>Math.round\<close>: the integer nearest to the double, a half rounds up. The result is
  exact: an integer below \<open>2^53\<close> is a double, and a double from \<open>2^52\<close> on is an
  integer already.
\<close>

fun Math_round :: "jsnum \<Rightarrow> jsnum" where
  "Math_round (Num x) = Num (of_int \<lfloor>x + 1 / 2\<rfloor>)"
| "Math_round x = x"

section \<open>parseInt\<close>

text \<open>
  \<open>parseInt(s)\<close> without a radix: leading (ASCII) white space, a sign, an optional \<open>0x\<close>, then
  the longest run of digits. No digit gives \<open>NaN\<close>; otherwise the result is the double
  nearest to the integer read, so an integer beyond \<open>2^53\<close> is rounded and one beyond
  the largest double is \<open>Infinity\<close>. (Past twenty decimal digits an engine may round
  from the first twenty digits alone; the integer is rounded as a whole here.)
\<close>

definition isWhiteSpace :: "char \<Rightarrow> bool" where
  "isWhiteSpace c = (of_char c \<in> {9, 10, 11, 12, 13, 32 :: nat})"

definition digitValue :: "char \<Rightarrow> nat option" where
  "digitValue c =
     (let n = (of_char c :: nat) in
      if 48 \<le> n \<and> n \<le> 57 then Some (n - 48)
      else if 97 \<le> n \<and> n \<le> 102 then Some (n - 87)
      else if 65 \<le> n \<and> n \<le> 70 then Some (n - 55)
      else None)"

definition isRadixDigit :: "nat \<Rightarrow> char \<Rightarrow> bool" where
  "isRadixDigit R c = (case digitValue c of None \<Rightarrow> False | Some v \<Rightarrow> v < R)"

definition radixValue :: "nat \<Rightarrow> string \<Rightarrow> int" where
  "radixValue R z =
     foldl (\<lambda>acc c. acc * int R + (case digitValue c of Some v \<Rightarrow> int v | None \<Rightarrow> 0)) 0 z"

definition parseInt :: "string \<Rightarrow> jsnum" where
  "parseInt s =
     (let s1 = dropWhile isWhiteSpace s;
          neg = (s1 \<noteq> [] \<and> hd s1 = CHR ''-'');
          s2 = (if s1 \<noteq> [] \<and> (hd s1 = CHR ''+'' \<or> hd s1 = CHR ''-'') then tl s1 else s1);
          hex = (take 2 s2 = ''0x'' \<or> take 2 s2 = ''0X'');
          R = (if hex then 16 else 10);
          s3 = (if hex then drop 2 s2 else s2);
          z = takeWhile (isRadixDigit R) s3
      in if z = [] then NaN
         else toDouble (of_int ((if neg then - 1 else 1) * radixValue R z)))"

section \<open>The page\<close>

text \<open>
  An exception of the program: an \<open>Error\<close> it creates itself, with its message, or the
  \<open>TypeError\<close> of reading the named property of \<open>null\<close> or \<open>undefined\<close>.
\<close>

datatype error = Error string | TypeError string

text \<open>
  The page is the document the script runs in: the elements that
  \<open>document.getElementById\<close> finds, each with the \<open>value\<close> and \<open>checked\<close> it has.
\<close>

record element =
  elValue :: string
  elChecked :: bool

type_synonym document = "string \<Rightarrow> element option"

text \<open>
  \<open>this.elements\<close> is the object that \<open>initializeEventListeners\<close> builds: it has the
  twelve keys below, each holding what \<open>document.getElementById\<close> finds for it, and no
  other key. Nothing adds a key later. It is built before the first listener is attached,
  so every conversion that the page starts finds it.
\<close>

type_synonym elements = "string \<Rightarrow> element option"

definition cachedIds :: "string list" where
  "cachedIds =
     [''fileInput'', ''uploadArea'', ''convertBtn'', ''mediaType'', ''formatSelect'',
      ''videoFormatSelect'', ''qualitySlider'', ''qualityValue'', ''themeToggle'',
      ''advancedToggle'', ''progressSection'', ''previewSection'']"

definition cacheElements :: "document \<Rightarrow> elements" where
  "cacheElements doc = (\<lambda>k. if k \<in> set cachedIds then doc k else None)"

text \<open>
  Reading a control. \<open>e.value\<close> raises a \<open>TypeError\<close> when \<open>e\<close> is \<open>null\<close> or
  \<open>undefined\<close>; \<open>e?.value\<close> is \<open>undefined\<close> (\<open>None\<close>) then; \<open>optChecked\<close> is whether
  \<open>e?.checked\<close> is truthy.
\<close>

type_synonym input_value = "string option"

definition readValue :: "element option \<Rightarrow> error + string" where
  "readValue e = (case e of None \<Rightarrow> Inl (TypeError ''value'') | Some x \<Rightarrow> Inr (elValue x))"

definition optValue :: "element option \<Rightarrow> input_value" where
  "optValue e = map_option elValue e"

definition optChecked :: "element option \<Rightarrow> bool" where
  "optChecked e = (case e of None \<Rightarrow> False | Some x \<Rightarrow> elChecked x)"

definition truthy :: "input_value \<Rightarrow> bool" where
  "truthy v = (case v of None \<Rightarrow> False | Some s \<Rightarrow> s \<noteq> [])"

text \<open>\<open>parseInt(undefined)\<close> is \<open>NaN\<close>.\<close>

definition parseInt_input :: "input_value \<Rightarrow> jsnum" where
  "parseInt_input v = (case v of None \<Rightarrow> NaN | Some s \<Rightarrow> parseInt s)"

section \<open>The dimension calculator\<close>

record dims =
  width :: jsnum
  height :: jsnum

text \<open>\<open>parseInt(input) || original\<close>: \<open>NaN\<close> and \<open>0\<close> are falsy.\<close>

definition parsed_or :: "input_value \<Rightarrow> nat \<Rightarrow> jsnum" where
  "parsed_or v original =
     (case parseInt_input v of
        NaN \<Rightarrow> Num (of_nat original)
      | Num n \<Rightarrow> if n = 0 then Num (of_nat original) else Num n
      | PosInf \<Rightarrow> PosInf
      | NegInf \<Rightarrow> NegInf)"

text \<open>
  \<open>calculateResizeDimensions\<close>, with \<open>this.elements\<close> as first argument. The two
  original dimensions are \<open>img.width\<close> and \<open>img.height\<close>, non-negative integers
  (below \<open>2^32\<close>, so each is a double as it stands). The method reads its three
  controls with \<open>?.\<close> and has no statement that raises; its result is on the right of
  the sum, as for the methods that can raise.
\<close>

definition calculateResizeDimensions :: "elements \<Rightarrow> nat \<Rightarrow> nat \<Rightarrow> error + dims" where
  "calculateResizeDimensions els originalWidth originalHeight =
     (let widthInput = optValue (els ''resizeWidth'');
          heightInput = optValue (els ''resizeHeight'');
          w = parsed_or widthInput originalWidth;
          h = parsed_or heightInput originalHeight
      in if \<not> truthy widthInput \<and> \<not> truthy heightInput
         then Inr \<lparr>width = Num (of_nat originalWidth), height = Num (of_nat originalHeight)\<rparr>
         else if optChecked (els ''lockAspect'')
              then (let aspectRatio = js_div (Num (of_nat originalWidth)) (Num (of_nat originalHeight))
                    in if truthy widthInput \<and> \<not> truthy heightInput
                       then Inr \<lparr>width = w, height = Math_round (js_div w aspectRatio)\<rparr>
                       else if truthy heightInput \<and> \<not> truthy widthInput
                            then Inr \<lparr>width = Math_round (js_mul h aspectRatio), height = h\<rparr>
                            else Inr \<lparr>width = w, height = h\<rparr>)
              else Inr \<lparr>width = w, height = h\<rparr>)"

section \<open>The format resolver\<close>

record media_file =
  fname :: string
  ftype :: string
  fdata :: "nat list"

text \<open>\<open>file.size\<close> is the number of bytes of the file.\<close>

definition fsize :: "media_file \<Rightarrow> nat" where
  "fsize f = length (fdata f)"

text \<open>
  What a lookup in an object literal can give: a string, \<open>undefined\<close>, or a member that
  the literal inherits from \<open>Object.prototype\<close>.
\<close>

datatype format_value = Str string | Undefined | PrototypeMember string

definition objectPrototypeKeys :: "string list" where
  "objectPrototypeKeys =
     [''constructor'', ''__defineGetter__'', ''__defineSetter__'', ''hasOwnProperty'',
      ''__lookupGetter__'', ''__lookupSetter__'', ''isPrototypeOf'',
      ''propertyIsEnumerable'', ''toString'', ''valueOf'', ''__proto__'',
      ''toLocaleString'']"

definition formatMap :: "(string \<times> string) list" where
  "formatMap =
     [(''jpeg'', ''jpg''), (''svg+xml'', ''svg''), (''x-ms-wmv'', ''wmv''),
      (''quicktime'', ''mov'')]"

definition getFileFormat :: "media_file \<Rightarrow> format_value" where
  "getFileFormat f =
     (if ftype f \<noteq> []
      then (case split_second CHR ''/'' (ftype f) of
              None \<Rightarrow> Undefined
            | Some mimeFormat \<Rightarrow>
                (case map_of formatMap mimeFormat of
                   Some a \<Rightarrow> Str a
                 | None \<Rightarrow>
                     if mimeFormat \<in> set objectPrototypeKeys
                     then PrototypeMember mimeFormat
                     else Str mimeFormat))
      else (let extension = toLowerCase (split_pop CHR ''.'' (fname f))
            in if extension \<noteq> [] then Str extension else Str ''unknown''))"

section \<open>The filename pattern engine\<close>

text \<open>
  The clock readings \<open>applyFileNamePattern\<close> takes: \<open>now.toISOString().split('T')[0]\<close>,
  \<open>now.toTimeString().split(' ')[0]\<close> and \<open>Date.now()\<close>.
\<close>

record clock =
  isoDate :: string
  timeString :: string
  nowMs :: nat

definition applyFileNamePattern :: "clock \<Rightarrow> string \<Rightarrow> string \<Rightarrow> nat \<Rightarrow> string" where
  "applyFileNamePattern clk pattern originalName index =
     (let nameWithoutExt = substring0 originalName (lastIndexOf CHR ''.'' originalName);
          ext = split_pop CHR ''.'' originalName;
          p1 = replace pattern ''{name}'' nameWithoutExt;
          p2 = replace p1 ''{index}'' (padStart (digits (index + 1)) 3 CHR ''0'');
          p3 = replace p2 ''{format}'' (toLowerCase ext);
          p4 = replace p3 ''{original_format}'' (toLowerCase ext);
          p5 = replace p4 ''{date}'' (isoDate clk);
          p6 = replace p5 ''{time}'' (replace_all_char CHR '':'' CHR ''-'' (timeString clk))
      in replace p6 ''{timestamp}'' (digits (nowMs clk)))"

definition getConvertedFileName :: "string \<Rightarrow> string \<Rightarrow> string" where
  "getConvertedFileName originalName targetFormat =
     substring0 originalName (lastIndexOf CHR ''.'' originalName) @ ''.'' @ targetFormat"

definition truncateFileName :: "string \<Rightarrow> nat \<Rightarrow> string" where
  "truncateFileName fileName maxLength =
     (if length fileName \<le> maxLength then fileName
      else (let ext = split_pop CHR ''.'' fileName;
                nameWithoutExt = substring0 fileName (lastIndexOf CHR ''.'' fileName);
                truncated = substring0 nameWithoutExt (int maxLength - int (length ext) - 4)
            in truncated @ ''...'' @ ext))"

text \<open>
  \<open>mimeTypes[format] || 'image/png'\<close>: an own key gives its type, a name of a member
  of \<open>Object.prototype\<close> gives that member (it is truthy), any other name the default.
\<close>

definition mimeTypes :: "(string \<times> string) list" where
  "mimeTypes =
     [(''png'', ''image/png''), (''jpeg'', ''image/jpeg''), (''webp'', ''image/webp''),
      (''gif'', ''image/gif''), (''bmp'', ''image/bmp'')]"

definition getMimeType :: "string \<Rightarrow> format_value" where
  "getMimeType format =
     (case map_of mimeTypes format of
        Some m \<Rightarrow> Str m
      | None \<Rightarrow>
          if format \<in> set objectPrototypeKeys then PrototypeMember format
          else Str ''image/png'')"

section \<open>The converter and its collaborators\<close>

text \<open>
  A conversion result, the object \<open>convertedFile\<close>. A flag the source leaves out of the
  object is \<open>False\<close>. The fields \<open>dataURL\<close> and \<open>compressionRatio\<close> (a formatted
  floating-point text) are not modelled, and \<open>dimensions\<close> holds the two numbers that
  the source prints into one text.
\<close>

record converted =
  cname :: string
  cblob :: "nat list"
  originalSize :: nat
  convertedSize :: nat
  cformat :: string
  dimensions :: dims
  originalDimensions :: "(nat \<times> nat) option"
  duration :: "jsnum option"
  isVideo :: bool
  requiresServerConversion :: bool

text \<open>What a \<open>video\<close> element reports once its metadata has loaded.\<close>

record video_meta =
  videoWidth :: nat
  videoHeight :: nat
  videoDuration :: jsnum

text \<open>
  One run of the transcoding engine inside \<open>convertVideoWithFFmpeg\<close>: \<open>writeFile\<close>,
  \<open>exec\<close> or \<open>readFile\<close> throws, or the output bytes are read.
\<close>

datatype engine_run = WriteFailed | ExecFailed | ReadFailed | Output "nat list"

text \<open>
  Everything the converter does not decide itself: the page, the clock, and the outcomes
  of the browser and engine operations. \<open>engineLoad k\<close> tells whether the \<open>k\<close>-th call
  of \<open>ffmpeg.load\<close> succeeds, \<open>engineRun k\<close> is the outcome of the \<open>k\<close>-th engine run
  (two runs on one file may differ), \<open>probeVideo\<close> is \<open>onloadedmetadata\<close> or
  \<open>onerror\<close> of a \<open>video\<close> element, \<open>decodeImage\<close> is \<open>onload\<close> or \<open>onerror\<close> of
  an \<open>Image\<close>, \<open>encodeImage\<close> is the canvas drawing and encoding (\<open>None\<close>: it
  throws). \<open>previewError\<close> says that \<open>showPreviewSection\<close> throws. \<open>elapsed\<close> is the
  printed duration of the run.
\<close>

record world =
  page :: document
  clk :: clock
  engineLoad :: "nat \<Rightarrow> bool"
  engineRun :: "nat \<Rightarrow> media_file \<Rightarrow> string \<Rightarrow> engine_run"
  probeVideo :: "nat list \<Rightarrow> video_meta option"
  decodeImage :: "media_file \<Rightarrow> (nat \<times> nat) option"
  encodeImage :: "media_file \<Rightarrow> dims \<Rightarrow> format_value \<Rightarrow> jsnum option \<Rightarrow> nat list option"
  previewError :: bool
  elapsed :: string

text \<open>\<open>this.elements\<close>, built from the page.\<close>

definition thisElements :: "world \<Rightarrow> elements" where
  "thisElements w = cacheElements (page w)"

text \<open>
  The fields of \<open>MediaConverter\<close> and the parts of the page it writes. \<open>loadCalls\<close>,
  \<open>engineRuns\<close> and \<open>execCalls\<close> count the calls of \<open>ffmpeg.load\<close>, the engine runs
  started and the calls of \<open>ffmpeg.exec\<close>; \<open>notifications\<close> and \<open>errorLog\<close> record
  \<open>showNotification\<close> and \<open>console.error\<close>. \<open>progressWidth\<close> and \<open>progressText\<close> are
  the percentage written to \<open>#progressFill\<close> and the text written to \<open>#progressText\<close>.
\<close>

record converter =
  selectedFiles :: "media_file list"
  convertedMedia :: "converted list"
  isConverting :: bool
  ffmpegLoaded :: bool
  ffmpegLoading :: bool
  loadCalls :: nat
  engineRuns :: nat
  execCalls :: nat
  convertBtnDisabled :: bool
  convertBtnText :: string
  progressWidth :: jsnum
  progressText :: string
  notifications :: "string list"
  errorLog :: "string list"

text \<open>The state the constructor leaves.\<close>

definition initial :: converter where
  "initial =
     \<lparr>selectedFiles = [], convertedMedia = [], isConverting = False,
      ffmpegLoaded = False, ffmpegLoading = False, loadCalls = 0, engineRuns = 0,
      execCalls = 0, convertBtnDisabled = False, convertBtnText = ''convert'',
      progressWidth = Num 0, progressText = [], notifications = [], errorLog = []\<rparr>"

definition showNotification :: "string \<Rightarrow> converter \<Rightarrow> converter" where
  "showNotification message s = s\<lparr>notifications := notifications s @ [message]\<rparr>"

definition showError :: "string \<Rightarrow> converter \<Rightarrow> converter" where
  "showError message s = showNotification message s"

definition console_error :: "string \<Rightarrow> converter \<Rightarrow> converter" where
  "console_error message s = s\<lparr>errorLog := errorLog s @ [message]\<rparr>"

text \<open>\<open>updateProgress\<close> writes to the two elements it finds and skips a missing one.\<close>

definition updateProgress :: "world \<Rightarrow> jsnum \<Rightarrow> string \<Rightarrow> converter \<Rightarrow> converter" where
  "updateProgress w percentage text s =
     s\<lparr>progressWidth :=
         (if page w ''progressFill'' \<noteq> None then Math_round percentage else progressWidth s),
       progressText :=
         (if page w ''progressText'' \<noteq> None then text else progressText s)\<rparr>"

definition setConvertButtonState :: "world \<Rightarrow> bool \<Rightarrow> string \<Rightarrow> converter \<Rightarrow> converter" where
  "setConvertButtonState w disabled text s =
     (if thisElements w ''convertBtn'' \<noteq> None
      then s\<lparr>convertBtnDisabled := disabled, convertBtnText := text\<rparr>
      else s)"

text \<open>
  \<open>showProgressSection\<close> looks up \<open>#progressSection\<close> and \<open>#convertBtn\<close> and writes
  to both without a test: a missing one raises.
\<close>

definition showProgressSection :: "world \<Rightarrow> converter \<Rightarrow> (error + unit) \<times> converter" where
  "showProgressSection w s =
     (if page w ''progressSection'' = None then (Inl (TypeError ''style''), s)
      else if page w ''convertBtn'' = None then (Inl (TypeError ''disabled''), s)
      else (Inr (), updateProgress w (Num 0) ''preparing...'' (s\<lparr>convertBtnDisabled := True\<rparr>)))"

text \<open>The timer that \<open>hideProgressSection\<close> starts fires after the run and is left out.\<close>

definition hideProgressSection :: "world \<Rightarrow> converter \<Rightarrow> converter" where
  "hideProgressSection w s = updateProgress w (Num 100) ''conversion complete!'' s"

text \<open>
  \<open>clearSelection\<close> empties the selection and the results, then writes to the page.
  \<open>processFiles\<close> calls it when a drop or a file choice holds no image or video, and
  when showing the files raises; neither looks at \<open>isConverting\<close>.
\<close>

definition clearSelection :: "world \<Rightarrow> converter \<Rightarrow> (error + unit) \<times> converter" where
  "clearSelection w s =
     (let s1 = s\<lparr>selectedFiles := [], convertedMedia := []\<rparr>
      in if thisElements w ''uploadArea'' = None then (Inl (TypeError ''innerHTML''), s1)
         else if thisElements w ''previewSection'' = None then (Inl (TypeError ''style''), s1)
         else if page w ''optionsSection'' = None then (Inl (TypeError ''style''), s1)
         else (Inr (), s1))"

subsection \<open>Loading the engine\<close>

text \<open>
  \<open>loadFFmpeg\<close> runs up to its first \<open>await\<close> without interruption
  (\<open>loadFFmpeg_enter\<close>): it returns at once, or it has started the load and is
  suspended. When the load settles, the rest runs (\<open>loadFFmpeg_settle\<close>).
\<close>

datatype load_call = Returned bool | Awaiting

definition loadFFmpeg_enter :: "converter \<Rightarrow> load_call \<times> converter" where
  "loadFFmpeg_enter s =
     (if ffmpegLoaded s \<or> ffmpegLoading s then (Returned (ffmpegLoaded s), s)
      else (Awaiting,
            showNotification ''loading video converter engine...''
              (s\<lparr>ffmpegLoading := True, loadCalls := loadCalls s + 1\<rparr>)))"

definition loadFFmpeg_settle :: "bool \<Rightarrow> converter \<Rightarrow> bool \<times> converter" where
  "loadFFmpeg_settle ok s =
     (if ok
      then (True, (showNotification ''video converter ready!''
                     (s\<lparr>ffmpegLoaded := True\<rparr>))\<lparr>ffmpegLoading := False\<rparr>)
      else (False, (showNotification ''video conversion unavailable - using fallback''
                      (console_error ''Failed to load FFmpeg:'' s))\<lparr>ffmpegLoading := False\<rparr>))"

text \<open>A call that nothing interrupts: the load it starts settles before anything else runs.\<close>

definition loadFFmpeg :: "world \<Rightarrow> converter \<Rightarrow> bool \<times> converter" where
  "loadFFmpeg w s =
     (case loadFFmpeg_enter s of
        (Returned b, s') \<Rightarrow> (b, s')
      | (Awaiting, s') \<Rightarrow> loadFFmpeg_settle (engineLoad w (loadCalls s)) s')"

text \<open>
  Calls of \<open>loadFFmpeg\<close> interleaved with the loads settling. The number beside the
  converter counts the loads that have started and not settled.
\<close>

datatype load_event = CallLoadFFmpeg | LoadSettles bool

fun load_step :: "load_event \<Rightarrow> converter \<times> nat \<Rightarrow> converter \<times> nat" where
  "load_step CallLoadFFmpeg (s, n) =
     (case loadFFmpeg_enter s of
        (Returned b, s') \<Rightarrow> (s', n)
      | (Awaiting, s') \<Rightarrow> (s', Suc n))"
| "load_step (LoadSettles ok) (s, n) =
     (if n = 0 then (s, n) else (snd (loadFFmpeg_settle ok s), n - 1))"

fun load_run :: "load_event list \<Rightarrow> converter \<times> nat \<Rightarrow> converter \<times> nat" where
  "load_run [] st = st"
| "load_run (e # es) st = load_run es (load_step e st)"

text \<open>
  What every such sequence keeps: \<open>ffmpegLoading\<close> is set exactly while one load is in
  flight, and then the engine is not loaded.
\<close>

definition load_inv :: "converter \<times> nat \<Rightarrow> bool" where
  "load_inv st =
     (snd st \<le> 1 \<and> (ffmpegLoading (fst st) \<longleftrightarrow> snd st = 1)
      \<and> \<not> (ffmpegLoading (fst st) \<and> ffmpegLoaded (fst st)))"

subsection \<open>Converting one file\<close>

text \<open>\<open>this.elements.filenamePattern?.value || '{name}'\<close>.\<close>

definition patternValue :: "world \<Rightarrow> string" where
  "patternValue w =
     (case optValue (thisElements w ''filenamePattern'') of
        None \<Rightarrow> ''{name}''
      | Some p \<Rightarrow> if p = [] then ''{name}'' else p)"

definition transcodedVideo ::
    "world \<Rightarrow> media_file \<Rightarrow> string \<Rightarrow> nat \<Rightarrow> nat list \<Rightarrow> video_meta \<Rightarrow> converted" where
  "transcodedVideo w file targetFormat index blob video =
     \<lparr>cname = getConvertedFileName
                (applyFileNamePattern (clk w) (patternValue w) (fname file) index) targetFormat,
      cblob = blob,
      originalSize = fsize file,
      convertedSize = length blob,
      cformat = toUpperCase targetFormat,
      dimensions = \<lparr>width = Math_round (Num (of_nat (videoWidth video))),
                    height = Math_round (Num (of_nat (videoHeight video)))\<rparr>,
      originalDimensions = None,
      duration = Some (Math_round (videoDuration video)),
      isVideo = True,
      requiresServerConversion = False\<rparr>"

definition convertVideoWithFFmpeg ::
    "world \<Rightarrow> media_file \<Rightarrow> string \<Rightarrow> nat \<Rightarrow> converter \<Rightarrow> converted option \<times> converter" where
  "convertVideoWithFFmpeg w file targetFormat index s =
     (case (if \<not> ffmpegLoaded s then loadFFmpeg w s else (True, s)) of
        (loaded, s1) \<Rightarrow>
          if \<not> loaded then (None, s1)
          else (let s2 = s1\<lparr>engineRuns := engineRuns s1 + 1\<rparr>;
                    failed = console_error (''FFmpeg conversion error for '' @ fname file)
                in case engineRun w (engineRuns s1) file targetFormat of
                     WriteFailed \<Rightarrow> (None, failed s2)
                   | ExecFailed \<Rightarrow> (None, failed (s2\<lparr>execCalls := execCalls s2 + 1\<rparr>))
                   | ReadFailed \<Rightarrow> (None, failed (s2\<lparr>execCalls := execCalls s2 + 1\<rparr>))
                   | Output blob \<Rightarrow>
                       (case probeVideo w blob of
                          None \<Rightarrow> (None, s2\<lparr>execCalls := execCalls s2 + 1\<rparr>)
                        | Some video \<Rightarrow>
                            (Some (transcodedVideo w file targetFormat index blob video),
                             s2\<lparr>execCalls := execCalls s2 + 1\<rparr>))))"

definition renameOnlyVideo ::
    "world \<Rightarrow> media_file \<Rightarrow> string \<Rightarrow> nat \<Rightarrow> video_meta \<Rightarrow> converted" where
  "renameOnlyVideo w file targetFormat index video =
     \<lparr>cname = getConvertedFileName
                (applyFileNamePattern (clk w) (patternValue w) (fname file) index) targetFormat,
      cblob = fdata file,
      originalSize = fsize file,
      convertedSize = fsize file,
      cformat = toUpperCase targetFormat,
      dimensions = \<lparr>width = Math_round (Num (of_nat (videoWidth video))),
                    height = Math_round (Num (of_nat (videoHeight video)))\<rparr>,
      originalDimensions = None,
      duration = Some (Math_round (videoDuration video)),
      isVideo = True,
      requiresServerConversion = True\<rparr>"

text \<open>
  The result is an error (the promise rejects), \<open>None\<close> (it resolves to \<open>null\<close>) or a
  conversion result.
\<close>

definition convertSingleVideoAsync ::
    "world \<Rightarrow> media_file \<Rightarrow> string \<Rightarrow> nat \<Rightarrow> converter
      \<Rightarrow> (error + converted option) \<times> converter" where
  "convertSingleVideoAsync w file targetFormat index s =
     (case convertVideoWithFFmpeg w file targetFormat index s of
        (Some c, s1) \<Rightarrow>
          (case convertVideoWithFFmpeg w file targetFormat index s1 of
             (r, s2) \<Rightarrow> (Inr r, s2))
      | (None, s1) \<Rightarrow>
          (case probeVideo w (fdata file) of
             Some video \<Rightarrow> (Inr (Some (renameOnlyVideo w file targetFormat index video)), s1)
           | None \<Rightarrow> (Inl (Error (''failed to load video: '' @ fname file)), s1)))"

text \<open>
  The image path. The dimensions come from \<open>calculateResizeDimensions\<close> on
  \<open>this.elements\<close>; whatever is raised inside \<open>onload\<close> is caught, logged and turned
  into the rejection \<open>failed to convert\<close>.
\<close>

definition convertSingleImageAsync ::
    "world \<Rightarrow> media_file \<Rightarrow> string \<Rightarrow> jsnum \<Rightarrow> nat \<Rightarrow> converter
      \<Rightarrow> (error + converted) \<times> converter" where
  "convertSingleImageAsync w file targetFormat quality index s =
     (case decodeImage w file of
        None \<Rightarrow> (Inl (Error (''failed to load image: '' @ fname file)), s)
      | Some (imgWidth, imgHeight) \<Rightarrow>
          (let failed = (Inl (Error (''failed to convert '' @ fname file)),
                         console_error (''Conversion error for '' @ fname file) s)
           in case calculateResizeDimensions (thisElements w) imgWidth imgHeight of
                Inl e \<Rightarrow> failed
              | Inr resized \<Rightarrow>
                  (let fileName = applyFileNamePattern (clk w) (patternValue w) (fname file) index;
                       mimeType = getMimeType targetFormat
                   in case encodeImage w file resized mimeType
                             (if targetFormat = ''jpeg'' \<or> targetFormat = ''webp''
                              then Some quality else None) of
                        None \<Rightarrow> failed
                      | Some blob \<Rightarrow>
                          (Inr \<lparr>cname = getConvertedFileName fileName targetFormat,
                                cblob = blob,
                                originalSize = fsize file,
                                convertedSize = length blob,
                                cformat = toUpperCase targetFormat,
                                dimensions = resized,
                                originalDimensions = Some (imgWidth, imgHeight),
                                duration = None,
                                isVideo = False,
                                requiresServerConversion = False\<rparr>, s))))"

subsection \<open>The batch\<close>

text \<open>The body of the per-file \<open>try\<close>: \<open>Inr None\<close> is a \<open>convertedMedia\<close> that is not truthy.\<close>

definition convertFile ::
    "world \<Rightarrow> string \<Rightarrow> jsnum \<Rightarrow> media_file \<Rightarrow> nat \<Rightarrow> converter
      \<Rightarrow> (error + converted option) \<times> converter" where
  "convertFile w format quality file i s =
     (if startsWith (ftype file) ''image/''
      then (case convertSingleImageAsync w file format quality i s of
              (Inl e, s') \<Rightarrow> (Inl e, s')
            | (Inr c, s') \<Rightarrow> (Inr (Some c), s'))
      else if startsWith (ftype file) ''video/''
           then convertSingleVideoAsync w file format i s
           else (Inr None, s))"

text \<open>
  The \<open>for\<close> loop over the selected files, from index \<open>i\<close> on, with the two counters.
  The loop works on the list a run starts with. Nothing in its body outside the per-file
  \<open>try\<close> raises: the progress update tests the elements it writes to.
\<close>

fun convertLoop ::
    "world \<Rightarrow> string \<Rightarrow> jsnum \<Rightarrow> nat \<Rightarrow> media_file list \<Rightarrow> nat \<Rightarrow> nat \<Rightarrow> nat \<Rightarrow> converter
      \<Rightarrow> (nat \<times> nat) \<times> converter" where
  "convertLoop w format quality len [] i successCount failureCount s =
     ((successCount, failureCount), s)"
| "convertLoop w format quality len (file # rest) i successCount failureCount s =
     (case convertFile w format quality file i
             (updateProgress w
                (js_mul (js_div (Num (of_nat (i + 1))) (Num (of_nat len))) (Num 100))
                (''processing '' @ digits (i + 1) @ ''/'' @ digits len @ '': ''
                 @ truncateFileName (fname file) 30) s) of
        (Inl e, s') \<Rightarrow>
          convertLoop w format quality len rest (i + 1) successCount (failureCount + 1)
            (console_error (''Failed to convert '' @ fname file) s')
      | (Inr None, s') \<Rightarrow>
          convertLoop w format quality len rest (i + 1) successCount failureCount s'
      | (Inr (Some c), s') \<Rightarrow>
          convertLoop w format quality len rest (i + 1) (successCount + 1) failureCount
            (s'\<lparr>convertedMedia := convertedMedia s' @ [c]\<rparr>))"

definition summary :: "world \<Rightarrow> nat \<Rightarrow> nat \<Rightarrow> string" where
  "summary w successCount failureCount =
     ''converted '' @ digits successCount @ '' file''
     @ (if successCount \<noteq> 1 then ''s'' else [])
     @ '' in '' @ elapsed w @ ''s''
     @ (if failureCount > 0 then '' ('' @ digits failureCount @ '' failed)'' else [])"

text \<open>
  How a call of \<open>convertMedia\<close> ends: at one of its two guards, with the batch completed
  and its two counters, with an exception caught by its \<open>catch\<close> (\<open>Failed\<close>), or with
  an exception that leaves the method (\<open>Threw\<close>: the promise it returned rejects).
\<close>

datatype run_result =
  NoFilesSelected | AlreadyInProgress | Completed nat nat | Failed | Threw error

text \<open>
  The format and the quality that \<open>convertMedia\<close> reads from \<open>this.elements\<close>, with
  no test that the control exists.
\<close>

definition selectedFormat :: "world \<Rightarrow> error + string" where
  "selectedFormat w =
     (case readValue (thisElements w ''mediaType'') of
        Inl e \<Rightarrow> Inl e
      | Inr mediaType \<Rightarrow>
          if mediaType = ''video'' then readValue (thisElements w ''videoFormatSelect'')
          else readValue (thisElements w ''formatSelect''))"

definition selectedQuality :: "world \<Rightarrow> error + jsnum" where
  "selectedQuality w =
     (case readValue (thisElements w ''qualitySlider'') of
        Inl e \<Rightarrow> Inl e
      | Inr v \<Rightarrow> Inr (js_div (parseInt v) (Num 100)))"

text \<open>
  \<open>convertMedia\<close> in its three parts. \<open>convertMedia_setup\<close> is what runs between the
  two guards and the \<open>try\<close>: it sets \<open>isConverting\<close>, reads the format and the
  quality, loads the engine when a video is selected, disables the button, shows the
  progress section and empties the results. It is outside the \<open>try\<close>: what it raises
  leaves \<open>convertMedia\<close>, with the converter as it is at that statement.
  \<open>convertMedia_try\<close> is the \<open>try\<close> block with its \<open>catch\<close>. \<open>convertMedia\<close> adds the
  guards and the \<open>finally\<close> block.
\<close>

definition convertMedia_setup ::
    "world \<Rightarrow> converter \<Rightarrow> (error + string \<times> jsnum) \<times> converter" where
  "convertMedia_setup w s =
     (let s1 = s\<lparr>isConverting := True\<rparr>
      in case selectedFormat w of
           Inl e \<Rightarrow> (Inl e, s1)
         | Inr format \<Rightarrow>
             (case selectedQuality w of
                Inl e \<Rightarrow> (Inl e, s1)
              | Inr quality \<Rightarrow>
                  (let hasVideoFiles =
                         list_ex (\<lambda>f. startsWith (ftype f) ''video/'') (selectedFiles s1);
                       s2 = (if hasVideoFiles \<and> \<not> ffmpegLoaded s1
                             then (case loadFFmpeg w
                                          (showNotification
                                             ''preparing video converter... please wait'' s1) of
                                     (loaded, t) \<Rightarrow>
                                       if \<not> loaded
                                       then showNotification
                                              ''video conversion unavailable - will rename only'' t
                                       else t)
                             else s1)
                   in case showProgressSection w
                             (setConvertButtonState w True ''converting...'' s2) of
                        (Inl e, s3) \<Rightarrow> (Inl e, s3)
                      | (Inr u, s3) \<Rightarrow> (Inr (format, quality), s3\<lparr>convertedMedia := []\<rparr>))))"

definition convertMedia_try ::
    "world \<Rightarrow> string \<Rightarrow> jsnum \<Rightarrow> converter \<Rightarrow> run_result \<times> converter" where
  "convertMedia_try w format quality s =
     (case convertLoop w format quality (length (selectedFiles s)) (selectedFiles s) 0 0 0 s of
        ((successCount, failureCount), t) \<Rightarrow>
          if previewError w
          then (Failed,
                hideProgressSection w
                  (showError ''conversion failed. please try again.''
                     (console_error ''Conversion error:'' (hideProgressSection w t))))
          else (Completed successCount failureCount,
                showNotification (summary w successCount failureCount)
                  (hideProgressSection w t)))"

definition convertMedia :: "world \<Rightarrow> converter \<Rightarrow> run_result \<times> converter" where
  "convertMedia w s =
     (if selectedFiles s = [] then (NoFilesSelected, showError ''please select files first'' s)
      else if isConverting s
      then (AlreadyInProgress, showNotification ''conversion already in progress'' s)
      else
        (case convertMedia_setup w s of
           (Inl e, s3) \<Rightarrow> (Threw e, s3)
         | (Inr (format, quality), s3) \<Rightarrow>
             (case convertMedia_try w format quality s3 of
                (r, s4) \<Rightarrow>
                  (r, setConvertButtonState w False ''convert'' (s4\<lparr>isConverting := False\<rparr>)))))"

section \<open>Example inputs\<close>

definition clock0 :: clock where
  "clock0 = \<lparr>isoDate = ''2026-11-03'', timeString = ''12:34:56'', nowMs = 1793709296000\<rparr>"

text \<open>An element with a value, and a checkbox.\<close>

definition control :: "string \<Rightarrow> element" where
  "control v = \<lparr>elValue = v, elChecked = False\<rparr>"

definition checkbox :: "bool \<Rightarrow> element" where
  "checkbox b = \<lparr>elValue = ''on'', elChecked = b\<rparr>"

text \<open>
  A page with every element that the class looks up. The media type is \<open>video\<close> and
  the video format \<open>mp4\<close>, as \<open>processFiles\<close> leaves them once a video is selected;
  the resize panel asks for a width of 400 with the aspect ratio locked.
\<close>

definition page0 :: document where
  "page0 =
     map_of
       [(''mediaType'', control ''video''), (''formatSelect'', control ''png''),
        (''videoFormatSelect'', control ''mp4''), (''qualitySlider'', control ''90''),
        (''resizeWidth'', control ''400''), (''resizeHeight'', control []),
        (''lockAspect'', checkbox True),
        (''filenamePattern'', control ''{name}_{index}_{date}''),
        (''fileInput'', control []), (''uploadArea'', control []), (''convertBtn'', control []),
        (''progressSection'', control []), (''previewSection'', control []),
        (''progressFill'', control []), (''progressText'', control []),
        (''optionsSection'', control []), (''imageFormats'', control []),
        (''videoFormats'', control []), (''qualityGroup'', control []),
        (''qualityValue'', control []), (''themeToggle'', control []),
        (''advancedToggle'', control []), (''advancedOptions'', control []),
        (''imagesContainer'', control []), (''sizeChart'', control []),
        (''chartContainer'', control []), (''notification'', control []),
        (''brightnessSlider'', control ''0''), (''brightnessValue'', control []),
        (''contrastSlider'', control ''0''), (''contrastValue'', control []),
        (''saturationSlider'', control ''0''), (''saturationValue'', control []),
        (''stripMetadata'', checkbox False), (''autoOptimize'', checkbox False)]"

text \<open>
  Objects that hold the resize controls, to call \<open>calculateResizeDimensions\<close> with: the
  page itself (a width of 400, the lock on), a height of 49 with the lock on, a width of
  1 with the lock on, and a width of \<open>-5\<close> with the lock off.
\<close>

definition resize_height_49 :: elements where
  "resize_height_49 = page0(''resizeWidth'' \<mapsto> control [], ''resizeHeight'' \<mapsto> control ''49'')"

definition resize_width_1 :: elements where
  "resize_width_1 = page0(''resizeWidth'' \<mapsto> control ''1'')"

definition resize_width_negative :: elements where
  "resize_width_negative = page0(''resizeWidth'' \<mapsto> control ''-5'', ''lockAspect'' \<mapsto> checkbox False)"

text \<open>The same page without the element \<open>#progressSection\<close>.\<close>

definition page_no_progress :: document where
  "page_no_progress = page0(''progressSection'' := None)"

text \<open>The same page without the quality slider.\<close>

definition page_no_slider :: document where
  "page_no_slider = page0(''qualitySlider'' := None)"

definition clip :: media_file where
  "clip = \<lparr>fname = ''clip.mov'', ftype = ''video/quicktime'', fdata = [0, 1, 2, 3]\<rparr>"

definition photo :: media_file where
  "photo = \<lparr>fname = ''photo.png'', ftype = ''image/png'', fdata = [7, 7, 7]\<rparr>"

definition meta0 :: video_meta where
  "meta0 = \<lparr>videoWidth = 640, videoHeight = 360, videoDuration = Num 12\<rparr>"

text \<open>A world where the engine loads, every run gives output and every probe succeeds.\<close>

definition world0 :: world where
  "world0 =
     \<lparr>page = page0, clk = clock0, engineLoad = (\<lambda>k. True),
      engineRun = (\<lambda>k f t. Output [9, 9]), probeVideo = (\<lambda>b. Some meta0),
      decodeImage = (\<lambda>f. Some (1000, 500)), encodeImage = (\<lambda>f d m q. Some [5]),
      previewError = False, elapsed = ''0.10''\<rparr>"

text \<open>The world above on the page without \<open>#progressSection\<close>, and on the page without the slider.\<close>

definition world_no_progress :: world where
  "world_no_progress = world0\<lparr>page := page_no_progress\<rparr>"

definition world_no_slider :: world where
  "world_no_slider = world0\<lparr>page := page_no_slider\<rparr>"

definition selected :: converter where
  "selected = initial\<lparr>selectedFiles := [clip]\<rparr>"

text \<open>The first engine run gives output, every later one fails in \<open>exec\<close>.\<close>

definition world_second_run_fails :: world where
  "world_second_run_fails =
     world0\<lparr>engineRun := (\<lambda>k f t. if k = 0 then Output [9, 9] else ExecFailed)\<rparr>"

text \<open>Every load of the engine fails.\<close>

definition world_no_engine :: world where
  "world_no_engine = world0\<lparr>engineLoad := (\<lambda>k. False)\<rparr>"

text \<open>Every load of the engine fails, and no video metadata can be read.\<close>

definition world_no_probe :: world where
  "world_no_probe = world_no_engine\<lparr>probeVideo := (\<lambda>b. None)\<rparr>"

text \<open>
  A second video file, and a world where every load of the engine fails and the metadata of
  that file cannot be read; a selection of both files.
\<close>

definition broken :: media_file where
  "broken = \<lparr>fname = ''broken.mp4'', ftype = ''video/mp4'', fdata = [1]\<rparr>"

definition world_one_unreadable :: world where
  "world_one_unreadable =
     world_no_engine\<lparr>probeVideo := (\<lambda>b. if b = fdata broken then None else Some meta0)\<rparr>"


text \<open>The first load of the engine fails, every later one succeeds.\<close>

definition world_late_engine :: world where
  "world_late_engine = world0\<lparr>engineLoad := (\<lambda>k. k \<noteq> 0)\<rparr>"


section \<open>Properties\<close>

subsection \<open>Splitting strings\<close>

lemma split_on_nonempty: "split_on c s \<noteq> []"
  by (induction s) (auto simp: Let_def)

lemma split_on_no_sep: "c \<notin> set s \<Longrightarrow> split_on c s = [s]"
  by (induction s) (auto simp: Let_def)

lemma split_on_append: "c \<notin> set a \<Longrightarrow> split_on c (a @ c # b) = a # split_on c b"
  by (induction a) (auto simp: Let_def)

lemma split_on_sep_length: "2 \<le> length (split_on c (a @ c # b))"
proof (induction a)
  case Nil
  have "split_on c b \<noteq> []" by (rule split_on_nonempty)
  then show ?case by (cases "split_on c b") (auto simp: Let_def)
next
  case (Cons x a)
  then show ?case by (cases "split_on c (a @ c # b)") (auto simp: Let_def)
qed

lemma split_on_last: "last (split_on c (a @ c # b)) = last (split_on c b)"
proof (induction a)
  case Nil
  show ?case using split_on_nonempty[of c b] by (simp add: Let_def)
next
  case (Cons x a)
  let ?r = "split_on c (a @ c # b)"
  have len: "2 \<le> length ?r" by (rule split_on_sep_length)
  then obtain u v t where r: "?r = u # v # t"
    by (cases ?r; cases "tl ?r") auto
  show ?case using Cons r by (auto simp: Let_def)
qed

lemma split_pop_ext: "c \<notin> set ext \<Longrightarrow> split_pop c (base @ c # ext) = ext"
  by (simp add: split_pop_def split_on_last split_on_no_sep)

lemma split_pop_no_sep: "c \<notin> set n \<Longrightarrow> split_pop c n = n"
  by (simp add: split_pop_def split_on_no_sep)

lemma split_second_mime:
  "c \<notin> set major \<Longrightarrow> c \<notin> set sub \<Longrightarrow> split_second c (major @ c # sub) = Some sub"
  by (simp add: split_second_def split_on_append split_on_no_sep)

lemma toLowerCase_empty: "toLowerCase e = [] \<longleftrightarrow> e = []"
  by (simp add: toLowerCase_def)

lemma toLowerCase_PNG: "toLowerCase ''PNG'' = ''png''"
  by code_simp

subsection \<open>The format resolver\<close>

text \<open>
  C9, as the code has it. For a MIME type \<open>major/sub\<close>, \<open>getFileFormat\<close> returns the
  subtype as it is given, except that \<open>jpeg\<close> becomes \<open>jpg\<close>, \<open>svg+xml\<close> becomes
  \<open>svg\<close>, \<open>x-ms-wmv\<close> becomes \<open>wmv\<close> and \<open>quicktime\<close> becomes \<open>mov\<close> (a
  subtype that names a member of \<open>Object.prototype\<close> yields that member). For an empty
  MIME type it returns the lower-cased text after the last dot of the file name, the
  whole lower-cased name when there is no dot, and \<open>unknown\<close> when that text is empty.
\<close>

theorem getFileFormat_resolves:
  assumes "CHR ''/'' \<notin> set major" and "CHR ''/'' \<notin> set sub"
    and "CHR ''.'' \<notin> set ext"
  shows "getFileFormat \<lparr>fname = n, ftype = major @ ''/'' @ sub, fdata = d\<rparr> =
           (if sub = ''jpeg'' then Str ''jpg''
            else if sub = ''svg+xml'' then Str ''svg''
            else if sub = ''x-ms-wmv'' then Str ''wmv''
            else if sub = ''quicktime'' then Str ''mov''
            else if sub \<in> set objectPrototypeKeys then PrototypeMember sub
            else Str sub)
         \<and> getFileFormat \<lparr>fname = base @ ''.'' @ ext, ftype = [], fdata = d\<rparr> =
           (if ext = [] then Str ''unknown'' else Str (toLowerCase ext))
         \<and> getFileFormat \<lparr>fname = ext, ftype = [], fdata = d\<rparr> =
           (if ext = [] then Str ''unknown'' else Str (toLowerCase ext))"
proof -
  have sub: "split_second CHR ''/'' (major @ ''/'' @ sub) = Some sub"
    using assms(1,2) by (simp add: split_second_mime)
  have a: "getFileFormat \<lparr>fname = n, ftype = major @ ''/'' @ sub, fdata = d\<rparr> =
           (if sub = ''jpeg'' then Str ''jpg''
            else if sub = ''svg+xml'' then Str ''svg''
            else if sub = ''x-ms-wmv'' then Str ''wmv''
            else if sub = ''quicktime'' then Str ''mov''
            else if sub \<in> set objectPrototypeKeys then PrototypeMember sub
            else Str sub)"
    unfolding getFileFormat_def using sub by (simp add: formatMap_def)
  have b: "getFileFormat \<lparr>fname = base @ ''.'' @ ext, ftype = [], fdata = d\<rparr> =
           (if ext = [] then Str ''unknown'' else Str (toLowerCase ext))"
    unfolding getFileFormat_def using assms(3)
    by (simp add: split_pop_ext toLowerCase_empty)
  have c: "getFileFormat \<lparr>fname = ext, ftype = [], fdata = d\<rparr> =
           (if ext = [] then Str ''unknown'' else Str (toLowerCase ext))"
    unfolding getFileFormat_def using assms(3)
    by (simp add: split_pop_no_sep toLowerCase_empty)
  show ?thesis using a b c by blast
qed

theorem getFileFormat_resolves_witness:
  "getFileFormat \<lparr>fname = ''clip'', ftype = ''video/quicktime'', fdata = []\<rparr> = Str ''mov''
   \<and> getFileFormat \<lparr>fname = ''photo.PNG'', ftype = [], fdata = []\<rparr> = Str ''png''
   \<and> getFileFormat \<lparr>fname = ''PNG'', ftype = [], fdata = []\<rparr> = Str ''png''"
  using getFileFormat_resolves [of "''video''" "''quicktime''" "''PNG''" "''clip''" "[]" "''photo''"]
  by (simp add: toLowerCase_PNG objectPrototypeKeys_def)

text \<open>
  C9 as stated fails: \<open>image/jpeg\<close> does not resolve to \<open>jpeg\<close>; the alias table of
  the source maps \<open>jpeg\<close> to \<open>jpg\<close>.
\<close>

theorem getFileFormat_jpeg_counterexample:
  "getFileFormat \<lparr>fname = ''photo.jpeg'', ftype = ''image/jpeg'', fdata = []\<rparr> \<noteq> Str ''jpeg''"
  by (simp add: getFileFormat_def split_second_def formatMap_def Let_def)

subsection \<open>The filename pattern engine\<close>

lemma replace_absent: "indexOf pat s = None \<Longrightarrow> replace s pat rep = s"
  by (simp add: replace_def)

text \<open>
  C6, at the example of the specification. The pattern engine expands
  \<open>{name}_{index}_{date}\<close> for \<open>vacation.png\<close> at index 4 as the claim says. The
  caller then passes that text, which has no dot left, to \<open>getConvertedFileName\<close>,
  which cuts at the last dot: \<open>lastIndexOf\<close> is \<open>-1\<close>, the stem is empty, and the
  final name is \<open>.png\<close>, not \<open>vacation_005_2026-11-03.png\<close>.
\<close>

theorem final_name_loses_stem:
  "applyFileNamePattern clock0 ''{name}_{index}_{date}'' ''vacation.png'' 4
     = ''vacation_005_2026-11-03''
   \<and> getConvertedFileName
       (applyFileNamePattern clock0 ''{name}_{index}_{date}'' ''vacation.png'' 4) ''png''
     = ''.png''"
proof -
  have stem: "substring0 ''vacation.png'' (lastIndexOf CHR ''.'' ''vacation.png'') = ''vacation''"
    by code_simp
  have ext: "toLowerCase (split_pop CHR ''.'' ''vacation.png'') = ''png''"
    by code_simp
  have idx: "padStart (digits (4 + 1)) 3 CHR ''0'' = ''005''"
    by code_simp
  have p1: "replace ''{name}_{index}_{date}'' ''{name}'' ''vacation'' = ''vacation_{index}_{date}''"
    by code_simp
  have p2: "replace ''vacation_{index}_{date}'' ''{index}'' ''005'' = ''vacation_005_{date}''"
    by code_simp
  have p3: "replace ''vacation_005_{date}'' ''{format}'' ''png'' = ''vacation_005_{date}''"
    by code_simp
  have p4: "replace ''vacation_005_{date}'' ''{original_format}'' ''png'' = ''vacation_005_{date}''"
    by code_simp
  have p5: "replace ''vacation_005_{date}'' ''{date}'' ''2026-11-03'' = ''vacation_005_2026-11-03''"
    by code_simp
  have p6: "replace ''vacation_005_2026-11-03'' ''{time}'' rep = ''vacation_005_2026-11-03''" for rep
    by (rule replace_absent) code_simp
  have p7: "replace ''vacation_005_2026-11-03'' ''{timestamp}'' rep = ''vacation_005_2026-11-03''" for rep
    by (rule replace_absent) code_simp
  have name: "applyFileNamePattern clock0 ''{name}_{index}_{date}'' ''vacation.png'' 4
     = ''vacation_005_2026-11-03''"
    unfolding applyFileNamePattern_def Let_def stem ext idx p1 p2 p3 p4
    by (simp add: clock0_def p5 p6 p7)
  have final: "getConvertedFileName ''vacation_005_2026-11-03'' ''png'' = ''.png''"
    by code_simp
  show ?thesis unfolding name using final by simp
qed
subsection \<open>The dimension calculator\<close>

lemma parseInt_examples:
  "parseInt ''400'' = Num 400" "parseInt ''49'' = Num 49" "parseInt ''1'' = Num 1"
  "parseInt ''-5'' = Num (- 5)" "parseInt [] = NaN"
  by code_simp+

lemma js_div_examples:
  "js_div (Num 1000) (Num 500) = Num 2"
  "js_div (Num 400) (Num 2) = Num 200"
  "js_div (Num 1) (Num 98) = Num (5882252574524729 / 576460752303423488)"
  "js_div (Num 1000) (Num 1) = Num 1000"
  "js_div (Num 1) (Num 1000) = Num (1152921504606847 / 1152921504606846976)"
  by code_simp+

lemma js_mul_examples:
  "js_mul (Num 49) (Num (5882252574524729 / 576460752303423488))
     = Num (9007199254740991 / 18014398509481984)"
  by code_simp

lemma resize_controls:
  "optValue (page0 ''resizeWidth'') = Some ''400''"
  "optValue (page0 ''resizeHeight'') = Some []"
  "optChecked (page0 ''lockAspect'')"
  "optValue (resize_height_49 ''resizeWidth'') = Some []"
  "optValue (resize_height_49 ''resizeHeight'') = Some ''49''"
  "optChecked (resize_height_49 ''lockAspect'')"
  "optValue (resize_width_1 ''resizeWidth'') = Some ''1''"
  "optValue (resize_width_1 ''resizeHeight'') = Some []"
  "optChecked (resize_width_1 ''lockAspect'')"
  "optValue (resize_width_negative ''resizeWidth'') = Some ''-5''"
  "optValue (resize_width_negative ''resizeHeight'') = Some []"
  "\<not> optChecked (resize_width_negative ''lockAspect'')"
  by (simp_all add: optValue_def optChecked_def page0_def resize_height_49_def
        resize_width_1_def resize_width_negative_def control_def checkbox_def)

lemma calculateResizeDimensions_page0:
  "calculateResizeDimensions page0 1000 500 = Inr \<lparr>width = Num 400, height = Num 200\<rparr>"
  by (simp add: calculateResizeDimensions_def Let_def resize_controls truthy_def parsed_or_def
        parseInt_input_def parseInt_examples js_div_examples floor_eq_iff del: js_div.simps)


lemma calculateResizeDimensions_height_49:
  "calculateResizeDimensions resize_height_49 1 98 = Inr \<lparr>width = Num 0, height = Num 49\<rparr>"
  by (simp add: calculateResizeDimensions_def Let_def resize_controls truthy_def parsed_or_def
        parseInt_input_def parseInt_examples js_div_examples js_mul_examples floor_eq_iff
        del: js_div.simps js_mul.simps)



lemma calculateResizeDimensions_cache:
  "calculateResizeDimensions (cacheElements doc) ow oh
     = Inr \<lparr>width = Num (of_nat ow), height = Num (of_nat oh)\<rparr>"
  by (simp add: calculateResizeDimensions_def Let_def cacheElements_def cachedIds_def
        optValue_def truthy_def)

text \<open>
  C8, on the code. \<open>this.elements\<close> has no key \<open>resizeWidth\<close>, \<open>resizeHeight\<close> or
  \<open>lockAspect\<close>: \<open>calculateResizeDimensions\<close> reads \<open>undefined\<close> for all three and,
  whatever the resize panel of the page holds, returns the original dimensions. On the
  page of the example (a width of 400, the lock on) an image of 1000 by 500 keeps 1000 by
  500, not 400 by 200, and \<open>convertSingleImageAsync\<close> gives its result these dimensions.
  Called with an object that does hold the three controls, the method computes 400 by
  200: the controls never reach it. \<open>initializeResizeControls\<close> reads the same controls
  with \<open>document.getElementById\<close> and keeps the state of the lock in
  \<open>this.aspectRatioLocked\<close>, which \<open>calculateResizeDimensions\<close> does not read.
\<close>

theorem calculateResizeDimensions_ignores_controls:
  "calculateResizeDimensions (cacheElements doc) ow oh
     = Inr \<lparr>width = Num (of_nat ow), height = Num (of_nat oh)\<rparr>
   \<and> optValue (page0 ''resizeWidth'') = Some ''400''
   \<and> optValue (page0 ''resizeHeight'') = Some []
   \<and> optChecked (page0 ''lockAspect'')
   \<and> calculateResizeDimensions (thisElements world0) 1000 500
       = Inr \<lparr>width = Num 1000, height = Num 500\<rparr>
   \<and> map_sum id dimensions (fst (convertSingleImageAsync world0 photo ''png'' quality 0 s))
       = Inr \<lparr>width = Num 1000, height = Num 500\<rparr>
   \<and> calculateResizeDimensions page0 1000 500 = Inr \<lparr>width = Num 400, height = Num 200\<rparr>"
proof -
  have built: "calculateResizeDimensions (thisElements world0) 1000 500
       = Inr \<lparr>width = Num 1000, height = Num 500\<rparr>"
    using calculateResizeDimensions_cache [of "page world0" 1000 500]
    by (simp add: thisElements_def)
  have decoded: "decodeImage world0 photo = Some (1000, 500)"
    and encoded: "encodeImage world0 photo d m q = Some [5]" for d m q
    by (simp_all add: world0_def)
  have image: "map_sum id dimensions (fst (convertSingleImageAsync world0 photo ''png'' quality 0 s))
       = Inr \<lparr>width = Num 1000, height = Num 500\<rparr>"
    by (simp add: convertSingleImageAsync_def Let_def decoded encoded built)
  show ?thesis
    using calculateResizeDimensions_cache [of doc ow oh] resize_controls(1-3) built image
      calculateResizeDimensions_page0
    by simp
qed





subsection \<open>Loading the engine\<close>

lemma load_step_inv: "load_inv st \<Longrightarrow> load_inv (load_step e st)"
  by (cases st; cases e)
     (auto simp: load_inv_def loadFFmpeg_enter_def loadFFmpeg_settle_def showNotification_def
        console_error_def)

lemma load_run_inv: "load_inv st \<Longrightarrow> load_inv (load_run es st)"
  by (induction es arbitrary: st) (simp_all add: load_step_inv)

text \<open>
  C5, as the code has it. Through any sequence of calls of \<open>loadFFmpeg\<close> and of loads
  settling, at most one load is in flight. A call made while a load is in flight starts
  no second load and changes nothing; it does not wait for the load: it returns at once
  with the current \<open>ffmpegLoaded\<close>, which is \<open>false\<close>.
\<close>

theorem loadFFmpeg_single_flight:
  assumes "\<not> ffmpegLoading s0"
  shows "snd (load_run es (s0, 0)) \<le> 1
       \<and> (snd (load_run es (s0, 0)) = 1 \<longrightarrow>
            loadFFmpeg_enter (fst (load_run es (s0, 0))) =
              (Returned False, fst (load_run es (s0, 0)))
            \<and> load_step CallLoadFFmpeg (load_run es (s0, 0)) = load_run es (s0, 0))"
proof -
  have "load_inv (s0, 0)" using assms by (simp add: load_inv_def)
  then have inv: "load_inv (load_run es (s0, 0))" by (rule load_run_inv)
  obtain s n where sn: "load_run es (s0, 0) = (s, n)" by (cases "load_run es (s0, 0)")
  from inv sn have "n \<le> 1" "ffmpegLoading s \<longleftrightarrow> n = 1" "\<not> (ffmpegLoading s \<and> ffmpegLoaded s)"
    by (simp_all add: load_inv_def)
  then show ?thesis unfolding sn by (auto simp: loadFFmpeg_enter_def)
qed

theorem loadFFmpeg_single_flight_witness:
  "\<not> ffmpegLoading initial
   \<and> snd (load_run [CallLoadFFmpeg] (initial, 0)) = 1
   \<and> fst (loadFFmpeg_enter (fst (load_run [CallLoadFFmpeg] (initial, 0)))) = Returned False
   \<and> snd (load_run [CallLoadFFmpeg, CallLoadFFmpeg] (initial, 0)) = 1"
proof -
  have a: "\<not> ffmpegLoading initial" by (simp add: initial_def)
  have n: "snd (load_run [CallLoadFFmpeg] (initial, 0)) = 1"
    by (simp add: initial_def loadFFmpeg_enter_def showNotification_def)
  from loadFFmpeg_single_flight [OF a, of "[CallLoadFFmpeg]"] n a
  show ?thesis by simp
qed

text \<open>
  C5 as stated fails in its second half: with one load in flight, a second call is not
  suspended until that load has settled; it has already returned (\<open>false\<close>).
\<close>

theorem loadFFmpeg_no_await_counterexample:
  "snd (load_run [CallLoadFFmpeg] (initial, 0)) = 1
   \<and> fst (loadFFmpeg_enter (fst (load_run [CallLoadFFmpeg] (initial, 0)))) \<noteq> Awaiting"
  by (simp add: initial_def loadFFmpeg_enter_def showNotification_def)
lemma loadFFmpeg_frame:
  "selectedFiles (snd (loadFFmpeg w s)) = selectedFiles s"
  "convertedMedia (snd (loadFFmpeg w s)) = convertedMedia s"
  "isConverting (snd (loadFFmpeg w s)) = isConverting s"
  "engineRuns (snd (loadFFmpeg w s)) = engineRuns s"
  "execCalls (snd (loadFFmpeg w s)) = execCalls s"
  by (simp_all add: loadFFmpeg_def loadFFmpeg_enter_def loadFFmpeg_settle_def
        showNotification_def console_error_def)
subsection \<open>Converting a video\<close>

lemma convertVideoWithFFmpeg_Some:
  assumes "convertVideoWithFFmpeg w f t i s = (Some c, s')"
  shows "execCalls s' = execCalls s + 1 \<and> \<not> requiresServerConversion c"
proof -
  obtain b s1 where l: "(if \<not> ffmpegLoaded s then loadFFmpeg w s else (True, s)) = (b, s1)"
    by (metis prod.exhaust)
  have e: "execCalls s1 = execCalls s"
    using l loadFFmpeg_frame(5) [of w s] by (auto split: if_splits)
  show ?thesis
    using assms l e
    by (auto simp: convertVideoWithFFmpeg_def Let_def transcodedVideo_def console_error_def
          split: if_splits engine_run.splits option.splits)
qed

lemma convertVideoWithFFmpeg_world0:
  "ffmpegLoaded s \<Longrightarrow>
   convertVideoWithFFmpeg world0 clip t i s =
     (Some (transcodedVideo world0 clip t i [9, 9] meta0),
      s\<lparr>engineRuns := engineRuns s + 1, execCalls := execCalls s + 1\<rparr>)"
  by (simp add: convertVideoWithFFmpeg_def Let_def world0_def)


lemma clip_is_video: "startsWith (ftype clip) ''video/''" "\<not> startsWith (ftype clip) ''image/''"
  by (simp_all add: startsWith_def clip_def)


lemma convertVideoWithFFmpeg_frame:
  "convertedMedia (snd (convertVideoWithFFmpeg w f t i s)) = convertedMedia s"
proof -
  obtain b s1 where l: "loadFFmpeg w s = (b, s1)"
    by (metis prod.exhaust)
  then have "convertedMedia s1 = convertedMedia s"
    using loadFFmpeg_frame(2) [of w s] by simp
  then show ?thesis
    using l
    by (simp add: convertVideoWithFFmpeg_def Let_def console_error_def
          split: engine_run.split option.split)
qed


lemma convertSingleVideoAsync_frame:
  "convertedMedia (snd (convertSingleVideoAsync w f t i s)) = convertedMedia s"
proof -
  obtain r1 s1 where a: "convertVideoWithFFmpeg w f t i s = (r1, s1)"
    by (metis prod.exhaust)
  obtain r2 s2 where b: "convertVideoWithFFmpeg w f t i s1 = (r2, s2)"
    by (metis prod.exhaust)
  have "convertedMedia s1 = convertedMedia s"
    using a convertVideoWithFFmpeg_frame [of w f t i s] by simp
  moreover have "convertedMedia s2 = convertedMedia s1"
    using b convertVideoWithFFmpeg_frame [of w f t i s1] by simp
  ultimately show ?thesis
    using a b by (simp add: convertSingleVideoAsync_def split: option.split)
qed


lemma convertSingleImageAsync_frame:
  "convertedMedia (snd (convertSingleImageAsync w f t q i s)) = convertedMedia s"
  "ffmpegLoaded (snd (convertSingleImageAsync w f t q i s)) = ffmpegLoaded s"
  by (simp_all add: convertSingleImageAsync_def Let_def console_error_def
        split: option.split prod.split sum.split)


lemma convertFile_frame:
  "convertedMedia (snd (convertFile w t q f i s)) = convertedMedia s"
proof -
  obtain r s1 where a: "convertSingleImageAsync w f t q i s = (r, s1)"
    by (metis prod.exhaust)
  then have "convertedMedia s1 = convertedMedia s"
    using convertSingleImageAsync_frame(1) [of w f t q i s] by simp
  then show ?thesis
    using a by (simp add: convertFile_def convertSingleVideoAsync_frame split: sum.split)
qed

lemma selected_facts:
  "\<not> ffmpegLoaded selected" "selectedFiles selected = [clip]" "\<not> isConverting selected"
  "convertedMedia selected = []" "engineRuns selected = 0" "\<not> ffmpegLoading selected"
  "loadCalls selected = 0"
  by (simp_all add: selected_def initial_def)

lemma world_second_run_fails_facts:
  "engineLoad world_second_run_fails k"
  "\<not> previewError world_second_run_fails"
  "engineRun world_second_run_fails 0 f t = Output [9, 9]"
  "engineRun world_second_run_fails (Suc 0) f t = ExecFailed"
  "probeVideo world_second_run_fails b = Some meta0"
  by (simp_all add: world_second_run_fails_def world0_def)

lemma convertSingleVideoAsync_second_run_fails:
  assumes "ffmpegLoaded s" and "engineRuns s = 0"
  shows "fst (convertSingleVideoAsync world_second_run_fails clip t i s) = Inr None"
  using assms
  by (simp add: convertSingleVideoAsync_def convertVideoWithFFmpeg_def Let_def
        world_second_run_fails_facts console_error_def)

text \<open>
  C4, on the code. \<open>convertSingleVideoAsync\<close> calls \<open>convertVideoWithFFmpeg\<close> once
  to test its result and, when that is a result, a second time to return one: every
  transcoded result (one without \<open>requiresServerConversion\<close>) has cost exactly two calls
  of \<open>ffmpeg.exec\<close>, not one.
\<close>

theorem convertSingleVideoAsync_transcodes_twice:
  assumes "convertSingleVideoAsync w f t i s = (Inr (Some c), s')"
    and "\<not> requiresServerConversion c"
  shows "execCalls s' = execCalls s + 2"
proof -
  obtain r1 s1 where first: "convertVideoWithFFmpeg w f t i s = (r1, s1)"
    by (metis prod.exhaust)
  show ?thesis
  proof (cases r1)
    case None
    with assms first show ?thesis
      by (auto simp: convertSingleVideoAsync_def renameOnlyVideo_def split: option.splits)
  next
    case (Some c1)
    obtain r2 s2 where second: "convertVideoWithFFmpeg w f t i s1 = (r2, s2)"
      by (metis prod.exhaust)
    from assms(1) first Some second have "r2 = Some c" "s2 = s'"
      by (simp_all add: convertSingleVideoAsync_def)
    with second have "execCalls s' = execCalls s1 + 1"
      using convertVideoWithFFmpeg_Some by blast
    moreover from first Some have "execCalls s1 = execCalls s + 1"
      using convertVideoWithFFmpeg_Some by blast
    ultimately show ?thesis by simp
  qed
qed

theorem convertSingleVideoAsync_transcodes_twice_witness:
  "fst (convertSingleVideoAsync world0 clip ''mp4'' 0 (selected\<lparr>ffmpegLoaded := True\<rparr>))
     = Inr (Some (transcodedVideo world0 clip ''mp4'' 0 [9, 9] meta0))
   \<and> \<not> requiresServerConversion (transcodedVideo world0 clip ''mp4'' 0 [9, 9] meta0)
   \<and> execCalls (snd (convertSingleVideoAsync world0 clip ''mp4'' 0 (selected\<lparr>ffmpegLoaded := True\<rparr>)))
     = execCalls (selected\<lparr>ffmpegLoaded := True\<rparr>) + 2"
proof -
  have f: "fst (convertSingleVideoAsync world0 clip ''mp4'' 0 (selected\<lparr>ffmpegLoaded := True\<rparr>))
      = Inr (Some (transcodedVideo world0 clip ''mp4'' 0 [9, 9] meta0))"
    by (simp add: convertSingleVideoAsync_def convertVideoWithFFmpeg_world0)
  then have run: "convertSingleVideoAsync world0 clip ''mp4'' 0 (selected\<lparr>ffmpegLoaded := True\<rparr>) =
      (Inr (Some (transcodedVideo world0 clip ''mp4'' 0 [9, 9] meta0)),
       snd (convertSingleVideoAsync world0 clip ''mp4'' 0 (selected\<lparr>ffmpegLoaded := True\<rparr>)))"
    by (metis prod.collapse)
  have nf: "\<not> requiresServerConversion (transcodedVideo world0 clip ''mp4'' 0 [9, 9] meta0)"
    by (simp add: transcodedVideo_def)
  from convertSingleVideoAsync_transcodes_twice [OF run nf] f nf
  show ?thesis by blast
qed



subsection \<open>The batch\<close>

lemma page0_ready:
  assumes "page w = page0"
  shows "selectedFormat w = Inr ''mp4''"
    and "selectedQuality w = Inr (js_div (parseInt ''90'') (Num 100))"
    and "page w ''progressSection'' \<noteq> None"
    and "page w ''convertBtn'' \<noteq> None"
    and "thisElements w ''convertBtn'' \<noteq> None"
  using assms
  by (simp_all add: selectedFormat_def selectedQuality_def readValue_def thisElements_def
        cacheElements_def cachedIds_def page0_def control_def)

lemma page0_worlds:
  "page world0 = page0" "page world_second_run_fails = page0" "page world_no_engine = page0"
  "page world_no_probe = page0" "page world_late_engine = page0"
  "page world_one_unreadable = page0"
  "page (world0\<lparr>previewError := True\<rparr>) = page0"
  by (simp_all add: world0_def world_second_run_fails_def world_no_engine_def
        world_no_probe_def world_late_engine_def world_one_unreadable_def)

lemma convertMedia_setup_frame:
  assumes "convertMedia_setup w s = (r, t)"
  shows "isConverting t" and "selectedFiles t = selectedFiles s"
proof -
  let ?s1 = "s\<lparr>isConverting := True\<rparr>"
  let ?p = "showNotification ''preparing video converter... please wait'' ?s1"
  obtain b u where l: "loadFFmpeg w ?p = (b, u)"
    by (metis prod.exhaust)
  have u: "isConverting u" "selectedFiles u = selectedFiles s"
    using l loadFFmpeg_frame(1,3) [of w ?p] by (simp_all add: showNotification_def)
  show "isConverting t"
    using assms l u
    by (auto simp: convertMedia_setup_def Let_def showProgressSection_def updateProgress_def
          setConvertButtonState_def showNotification_def split: sum.splits if_splits)
  show "selectedFiles t = selectedFiles s"
    using assms l u
    by (auto simp: convertMedia_setup_def Let_def showProgressSection_def updateProgress_def
          setConvertButtonState_def showNotification_def split: sum.splits if_splits)
qed



lemma convertMedia_setup_ready:
  assumes "selectedFormat w = Inr f" and "selectedQuality w = Inr q"
    and "page w ''progressSection'' \<noteq> None" and "page w ''convertBtn'' \<noteq> None"
  shows "fst (convertMedia_setup w s) = Inr (f, q)"
proof -
  let ?s1 = "s\<lparr>isConverting := True\<rparr>"
  let ?p = "showNotification ''preparing video converter... please wait'' ?s1"
  obtain b u where l: "loadFFmpeg w ?p = (b, u)"
    by (metis prod.exhaust)
  show ?thesis
    using assms l
    by (simp add: convertMedia_setup_def Let_def showProgressSection_def)
qed

lemma convertMedia_run:
  assumes "selectedFiles s \<noteq> []" and "\<not> isConverting s"
    and "convertMedia_setup w s = (Inr (f, q), s3)"
    and "convertLoop w f q (length (selectedFiles s3)) (selectedFiles s3) 0 0 0 s3 = ((a, b), u)"
  shows "fst (convertMedia w s) = (if previewError w then Failed else Completed a b)"
    and "convertedMedia (snd (convertMedia w s)) = convertedMedia u"
    and "set (errorLog u) \<subseteq> set (errorLog (snd (convertMedia w s)))"
    and "\<not> isConverting (snd (convertMedia w s))"
    and "thisElements w ''convertBtn'' \<noteq> None \<Longrightarrow> \<not> convertBtnDisabled (snd (convertMedia w s))"
  using assms
  by (auto simp: convertMedia_def convertMedia_try_def setConvertButtonState_def
        hideProgressSection_def updateProgress_def showNotification_def showError_def
        console_error_def)


text \<open>
  C3, as the code has it. A call of \<open>convertMedia\<close> while a run is in progress
  (\<open>isConverting\<close> is set) returns at once and changes nothing of that run: results,
  selected files, progress and flags stay as they are, and one notification is shown. The
  guard for an empty selection comes first: when files are selected the notification is
  \<open>conversion already in progress\<close>, and when the selection is empty it is
  \<open>please select files first\<close>. The counters of the run in progress are local to that
  run's call, so no other call reaches them.
\<close>

theorem convertMedia_rejects_reentry:
  assumes "isConverting s"
  shows "convertMedia w s =
           (if selectedFiles s = []
            then (NoFilesSelected,
                  s\<lparr>notifications := notifications s @ [''please select files first'']\<rparr>)
            else (AlreadyInProgress,
                  s\<lparr>notifications := notifications s @ [''conversion already in progress'']\<rparr>))"
  using assms by (simp add: convertMedia_def showNotification_def showError_def)

theorem convertMedia_rejects_reentry_witness:
  "isConverting (snd (convertMedia_setup world0 selected))
   \<and> selectedFiles (snd (convertMedia_setup world0 selected)) = [clip]
   \<and> convertMedia world0 (snd (convertMedia_setup world0 selected)) =
       (AlreadyInProgress,
        (snd (convertMedia_setup world0 selected))
          \<lparr>notifications := notifications (snd (convertMedia_setup world0 selected))
             @ [''conversion already in progress'']\<rparr>)"
proof -
  let ?t = "snd (convertMedia_setup world0 selected)"
  have st: "convertMedia_setup world0 selected = (fst (convertMedia_setup world0 selected), ?t)"
    by simp
  have a: "isConverting ?t"
    using convertMedia_setup_frame(1) [OF st] .
  have b: "selectedFiles ?t = [clip]"
    using convertMedia_setup_frame(2) [OF st] by (simp add: selected_def)
  from convertMedia_rejects_reentry [OF a, of world0] a b
  show ?thesis by simp
qed

text \<open>
  C3 as stated fails: while a run is in progress, a drop that holds no image or video
  makes \<open>processFiles\<close> call \<open>clearSelection\<close>. A call of \<open>convertMedia\<close> then is not
  answered with \<open>conversion already in progress\<close> but with \<open>please select files first\<close>.
\<close>

theorem convertMedia_reentry_counterexample:
  "isConverting (snd (clearSelection world0 (snd (convertMedia_setup world0 selected))))
   \<and> fst (convertMedia world0
            (snd (clearSelection world0 (snd (convertMedia_setup world0 selected)))))
       = NoFilesSelected
   \<and> last (notifications (snd (convertMedia world0
            (snd (clearSelection world0 (snd (convertMedia_setup world0 selected)))))))
       = ''please select files first''"
proof -
  let ?t = "snd (convertMedia_setup world0 selected)"
  have st: "convertMedia_setup world0 selected = (fst (convertMedia_setup world0 selected), ?t)"
    by simp
  have a: "isConverting ?t"
    using convertMedia_setup_frame(1) [OF st] .
  have c: "snd (clearSelection world0 ?t) = ?t\<lparr>selectedFiles := [], convertedMedia := []\<rparr>"
    by (simp add: clearSelection_def Let_def)
  show ?thesis
    unfolding c using a by (simp add: convertMedia_def showError_def showNotification_def)
qed

lemma selected_has_video:
  "list_ex (\<lambda>f. startsWith (ftype f) ''video/'') (selectedFiles (selected\<lparr>isConverting := True\<rparr>))"
  by (simp add: selected_def clip_is_video)

lemma page_no_progress_elements:
  "selectedFormat world_no_progress = Inr ''mp4''"
  "selectedQuality world_no_progress = Inr (js_div (parseInt ''90'') (Num 100))"
  "page world_no_progress ''progressSection'' = None"
  "thisElements world_no_progress ''fileInput'' \<noteq> None"
  "thisElements world_no_progress ''uploadArea'' \<noteq> None"
  "thisElements world_no_progress ''convertBtn'' \<noteq> None"
  by (simp_all add: selectedFormat_def selectedQuality_def readValue_def thisElements_def
        cacheElements_def cachedIds_def world_no_progress_def page_no_progress_def world0_def
        page0_def control_def)

lemma page_no_slider_elements:
  "selectedFormat world_no_slider = Inr ''mp4''"
  "selectedQuality world_no_slider = Inl (TypeError ''value'')"
  by (simp_all add: selectedFormat_def selectedQuality_def readValue_def thisElements_def
        cacheElements_def cachedIds_def world_no_slider_def page_no_slider_def world0_def
        page0_def control_def)

text \<open>
  C10, on the code. The \<open>finally\<close> block resets the flag for what is raised inside the
  \<open>try\<close>: when \<open>showPreviewSection\<close> raises, the run ends as failed with
  \<open>isConverting\<close> reset and the button enabled. The statements between
  \<open>this.isConverting = true\<close> and the \<open>try\<close> are not covered by it. On a page that
  has the three elements the constructor insists on but no \<open>#progressSection\<close>,
  \<open>showProgressSection\<close> raises a \<open>TypeError\<close> that leaves \<open>convertMedia\<close>: the flag
  stays set and the button disabled, and every later call is rejected as already in
  progress. On a page without the quality slider the read of its value raises in the same
  place, with the same end.
\<close>

theorem convertMedia_stays_converting:
  "thisElements world_no_progress ''fileInput'' \<noteq> None
   \<and> thisElements world_no_progress ''uploadArea'' \<noteq> None
   \<and> thisElements world_no_progress ''convertBtn'' \<noteq> None
   \<and> \<not> isConverting selected
   \<and> fst (convertMedia world_no_progress selected) = Threw (TypeError ''style'')
   \<and> isConverting (snd (convertMedia world_no_progress selected))
   \<and> convertBtnDisabled (snd (convertMedia world_no_progress selected))
   \<and> fst (convertMedia w (snd (convertMedia world_no_progress selected))) = AlreadyInProgress
   \<and> fst (convertMedia world_no_slider selected) = Threw (TypeError ''value'')
   \<and> isConverting (snd (convertMedia world_no_slider selected))
   \<and> fst (convertMedia w (snd (convertMedia world_no_slider selected))) = AlreadyInProgress
   \<and> fst (convertMedia (world0\<lparr>previewError := True\<rparr>) selected) = Failed
   \<and> \<not> isConverting (snd (convertMedia (world0\<lparr>previewError := True\<rparr>) selected))
   \<and> \<not> convertBtnDisabled (snd (convertMedia (world0\<lparr>previewError := True\<rparr>) selected))"
proof -
  have ne: "selectedFiles selected \<noteq> []" and idle: "\<not> isConverting selected"
    by (simp_all add: selected_facts)

  let ?p = "showNotification ''preparing video converter... please wait''
              (selected\<lparr>isConverting := True\<rparr>)"
  obtain b u where l: "loadFFmpeg world_no_progress ?p = (b, u)"
    by (metis prod.exhaust)
  have setup1: "convertMedia_setup world_no_progress selected =
      (Inl (TypeError ''style''),
       setConvertButtonState world_no_progress True ''converting...''
         (if \<not> b then showNotification ''video conversion unavailable - will rename only'' u
          else u))"
    using l selected_has_video
    by (simp add: convertMedia_setup_def Let_def page_no_progress_elements
          showProgressSection_def selected_facts)
  have run1: "convertMedia world_no_progress selected =
      (Threw (TypeError ''style''), snd (convertMedia_setup world_no_progress selected))"
    using ne idle by (simp add: convertMedia_def setup1)
  have t1: "isConverting (snd (convertMedia_setup world_no_progress selected))"
    "selectedFiles (snd (convertMedia_setup world_no_progress selected)) = [clip]"
    using convertMedia_setup_frame [of world_no_progress selected
        "fst (convertMedia_setup world_no_progress selected)"
        "snd (convertMedia_setup world_no_progress selected)"]
    by (simp_all add: selected_facts)
  have d1: "convertBtnDisabled (snd (convertMedia_setup world_no_progress selected))"
    unfolding setup1 by (simp add: setConvertButtonState_def page_no_progress_elements)
  have again1: "fst (convertMedia w (snd (convertMedia world_no_progress selected)))
      = AlreadyInProgress"
    unfolding run1 using t1 by (simp add: convertMedia_def)

  have setup2: "convertMedia_setup world_no_slider selected =
      (Inl (TypeError ''value''), selected\<lparr>isConverting := True\<rparr>)"
    by (simp add: convertMedia_setup_def Let_def page_no_slider_elements)
  have run2: "convertMedia world_no_slider selected =
      (Threw (TypeError ''value''), selected\<lparr>isConverting := True\<rparr>)"
    using ne idle by (simp add: convertMedia_def setup2)
  have again2: "fst (convertMedia w (snd (convertMedia world_no_slider selected)))
      = AlreadyInProgress"
    unfolding run2 using ne by (simp add: convertMedia_def)

  let ?w = "world0\<lparr>previewError := True\<rparr>"
  have pg: "page ?w = page0" by (rule page0_worlds)
  obtain t where st: "convertMedia_setup ?w selected
      = (Inr (''mp4'', js_div (parseInt ''90'') (Num 100)), t)"
    using convertMedia_setup_ready [OF page0_ready(1-4) [OF pg], of selected]
    by (metis prod.collapse)
  obtain x y v where L: "convertLoop ?w ''mp4'' (js_div (parseInt ''90'') (Num 100))
      (length (selectedFiles t)) (selectedFiles t) 0 0 0 t = ((x, y), v)"
    by (metis prod.exhaust)
  note run3 = convertMedia_run [OF ne idle st L]
  have f3: "fst (convertMedia ?w selected) = Failed"
    using run3(1) by simp
  have i3: "\<not> isConverting (snd (convertMedia ?w selected))"
    using run3(4) .
  have b3: "\<not> convertBtnDisabled (snd (convertMedia ?w selected))"
    using run3(5) page0_ready(5) [OF pg] by simp
  show ?thesis
    using page_no_progress_elements(4-6) idle run1 t1(1) d1 again1 run2 again2 f3 i3 b3
    by simp
qed
















text \<open>
  C1, on the code. One video file is selected, the engine loads, its first run on the
  file succeeds and its second run fails. \<open>convertSingleVideoAsync\<close> then resolves to
  \<open>null\<close>: the batch completes with \<open>successCount = 0\<close> and \<open>failureCount = 0\<close> for
  one file, and with no result.
\<close>

theorem convertMedia_loses_a_file:
  "selectedFiles selected = [clip]
   \<and> fst (convertMedia world_second_run_fails selected) = Completed 0 0
   \<and> convertedMedia (snd (convertMedia world_second_run_fails selected)) = []"
proof -
  let ?w = world_second_run_fails
  let ?q = "js_div (parseInt ''90'') (Num 100)"
  have ne: "selectedFiles selected \<noteq> []" by (simp add: selected_facts)
  have pg: "page ?w = page0" by (rule page0_worlds)
  obtain s3 where st: "convertMedia_setup ?w selected = (Inr (''mp4'', ?q), s3)"
    using convertMedia_setup_ready [OF page0_ready(1-4) [OF pg], of selected]
    by (metis prod.collapse)
  have s3eq: "s3 = snd (convertMedia_setup ?w selected)" using st by simp
  have s3: "ffmpegLoaded s3" "engineRuns s3 = 0" "selectedFiles s3 = [clip]"
    "convertedMedia s3 = []"
    unfolding s3eq
    by (simp_all add: convertMedia_setup_def Let_def page0_ready [OF pg] selected_facts
          clip_is_video loadFFmpeg_def loadFFmpeg_enter_def loadFFmpeg_settle_def
          showNotification_def showProgressSection_def updateProgress_def
          setConvertButtonState_def world_second_run_fails_facts)
  define s0 where "s0 = updateProgress ?w
     (js_mul (js_div (Num (of_nat (0 + 1))) (Num (of_nat (length [clip])))) (Num 100))
     (''processing '' @ digits (0 + 1) @ ''/'' @ digits (length [clip]) @ '': ''
      @ truncateFileName (fname clip) 30) s3"
  have s0: "ffmpegLoaded s0" "engineRuns s0 = 0" "convertedMedia s0 = []"
    using s3 by (simp_all add: s0_def updateProgress_def)
  obtain r u where cf: "convertFile ?w ''mp4'' ?q clip 0 s0 = (r, u)"
    by (metis prod.exhaust)
  have "fst (convertFile ?w ''mp4'' ?q clip 0 s0) = Inr None"
    using convertSingleVideoAsync_second_run_fails [OF s0(1,2)]
    by (simp add: convertFile_def clip_is_video)
  with cf have r: "r = Inr None" by simp
  have u: "convertedMedia u = []"
    using cf convertFile_frame [of ?w "''mp4''" ?q clip 0 s0] s0(3) by simp
  have loop: "convertLoop ?w ''mp4'' ?q (length (selectedFiles s3)) (selectedFiles s3) 0 0 0 s3
      = ((0, 0), u)"
    unfolding s3(3) using cf r by (simp add: s0_def)
  note run = convertMedia_run [OF ne selected_facts(3) st loop]
  show ?thesis
    using run(1,2) u by (simp add: selected_facts world_second_run_fails_facts)
qed

end
